theory Spec2Isabelle
  imports Main "HOL-Library.Multiset"
begin

section \<open>Announcements endpoints of the school management API\<close>

text \<open>
  A shallow embedding of \<^verbatim>\<open>src/backend/routers/announcements.py\<close>: the two pydantic
  models, and the four endpoint functions \<^verbatim>\<open>get_announcements\<close>,
  \<^verbatim>\<open>create_announcement\<close>, \<^verbatim>\<open>update_announcement\<close> and
  \<^verbatim>\<open>delete_announcement\<close>.

  Every effect of the source is an argument or a result of the model:
  \<^item> each call of \<^verbatim>\<open>datetime.now()\<close> is an argument holding the clock reading
    (\<^verbatim>\<open>create_announcement\<close> reads the clock twice, so it takes two readings);
  \<^item> the two collections are arguments, and an endpoint that writes returns the
    announcements collection as it is after the call;
  \<^item> a raised exception is the \<open>Inl\<close> side of the result: an \<^verbatim>\<open>HTTPException\<close>
    that the endpoint raises itself, or the \<^verbatim>\<open>TypeError\<close> of a comparison of two
    datetimes that do not compare, which no endpoint catches.
\<close>

subsection \<open>Values\<close>

text \<open>
  A point on a time line, counted in its smallest unit. The clock \<^verbatim>\<open>datetime.now()\<close>
  and the dates of a stored document are such points: both are naive datetimes.
\<close>

type_synonym timestamp = int

text \<open>
  A \<^verbatim>\<open>datetime\<close> of a request body is naive, when the body's text names no time
  zone, or timezone-aware, when it ends in \<^verbatim>\<open>Z\<close> or an offset; an aware one is held
  as its instant in UTC. A \<^verbatim>\<open>datetime\<close> object is truthy whatever its value, so
  \<^verbatim>\<open>if d and ...\<close> on an optional datetime tests that it is not \<^verbatim>\<open>None\<close>.
\<close>

datatype datetime = Naive timestamp | Aware timestamp

text \<open>
  Python's \<^verbatim>\<open>a <= b\<close> on datetimes: two naive or two aware ones compare, a naive and an
  aware one raise \<^verbatim>\<open>TypeError\<close> (\<open>None\<close>). \<^verbatim>\<open>a >= b\<close> is \<open>datetime_le b a\<close>.
\<close>

definition datetime_le :: "datetime \<Rightarrow> datetime \<Rightarrow> bool option" where
  "datetime_le a b =
     (case a of
        Naive x \<Rightarrow> (case b of Naive y \<Rightarrow> Some (x \<le> y) | Aware y \<Rightarrow> None)
      | Aware x \<Rightarrow> (case b of Naive y \<Rightarrow> None | Aware y \<Rightarrow> Some (x \<le> y)))"

text \<open>The twelve bytes of a store identifier, as twenty-four hexadecimal digits.\<close>

type_synonym objectid = "nat list"

text \<open>
  The text \<^verbatim>\<open>d.isoformat()\<close> of a datetime is kept symbolic: it is determined by the
  datetime and determines it.
\<close>

datatype isotext = Isoformat timestamp

text \<open>
  The exceptions that leave an endpoint: \<^verbatim>\<open>HTTPException(status_code, detail)\<close>, and
  the \<^verbatim>\<open>TypeError\<close> of a datetime comparison.
\<close>

datatype py_exception = HTTPException nat string | TypeError

text \<open>
  The error categories of the specification are the status codes of a raised
  \<^verbatim>\<open>HTTPException\<close>: 401, 400, 404 and 500. A \<^verbatim>\<open>TypeError\<close> is none of them: the
  endpoint does not turn it into a response of its own.
\<close>

definition Unauthorized :: "py_exception \<Rightarrow> bool" where
  "Unauthorized e = (case e of HTTPException c d \<Rightarrow> c = 401 | TypeError \<Rightarrow> False)"

definition InvalidInput :: "py_exception \<Rightarrow> bool" where
  "InvalidInput e = (case e of HTTPException c d \<Rightarrow> c = 400 | TypeError \<Rightarrow> False)"

definition NotFound :: "py_exception \<Rightarrow> bool" where
  "NotFound e = (case e of HTTPException c d \<Rightarrow> c = 404 | TypeError \<Rightarrow> False)"

definition StorageError :: "py_exception \<Rightarrow> bool" where
  "StorageError e = (case e of HTTPException c d \<Rightarrow> c = 500 | TypeError \<Rightarrow> False)"

subsection \<open>The pydantic models\<close>

text \<open>
  A record of \<open>AnnouncementCreate\<close> or \<open>AnnouncementUpdate\<close> is an instance that pydantic
  has built from a request body; the endpoint functions only ever receive such instances.
\<close>

record AnnouncementCreate =
  c_title :: string
  c_message :: string
  c_start_date :: "datetime option"
  c_expiration_date :: datetime
  c_is_active :: bool

text \<open>
  The class gives \<^verbatim>\<open>start_date\<close> the default \<^verbatim>\<open>None\<close> and \<^verbatim>\<open>is_active\<close> the
  default \<^verbatim>\<open>True\<close>: a body that leaves \<^verbatim>\<open>is_active\<close> out (\<open>None\<close> below) yields an
  instance whose flag is set.
\<close>

definition AnnouncementCreate_init ::
  "string \<Rightarrow> string \<Rightarrow> datetime option \<Rightarrow> datetime \<Rightarrow> bool option \<Rightarrow> AnnouncementCreate" where
  "AnnouncementCreate_init t m s e a =
     \<lparr>c_title = t, c_message = m, c_start_date = s, c_expiration_date = e,
      c_is_active = (case a of None \<Rightarrow> True | Some b \<Rightarrow> b)\<rparr>"

record AnnouncementUpdate =
  u_title :: "string option"
  u_message :: "string option"
  u_start_date :: "datetime option"
  u_expiration_date :: "datetime option"
  u_is_active :: "bool option"

subsection \<open>Documents of the announcements collection\<close>

text \<open>
  The only writers of the collection are \<^verbatim>\<open>create_announcement\<close>, which stores all
  seven fields with the types below (\<^verbatim>\<open>start_date\<close> possibly \<^verbatim>\<open>None\<close>), and
  \<^verbatim>\<open>update_announcement\<close>, which overwrites some of them with values of the same
  types. A stored document is therefore a record; \<open>doc_id\<close> is its \<^verbatim>\<open>_id\<close>. The
  store hands dates back as naive datetimes.
\<close>

record announcement_doc =
  doc_id :: objectid
  title :: string
  message :: string
  start_date :: "timestamp option"
  expiration_date :: timestamp
  created_by :: string
  created_at :: timestamp
  is_active :: bool

text \<open>The values that the source puts into a query or into a \<^verbatim>\<open>$set\<close> document.\<close>

datatype bson = BNull | BBool bool | BDate timestamp | BStr string | BOid objectid

text \<open>
  Modelled from the spec: the timestamp that the store keeps for a datetime handed to
  it. A naive datetime is kept as it is, an aware one as its instant.
\<close>

definition stored_datetime :: "datetime \<Rightarrow> timestamp" where
  "stored_datetime d = (case d of Naive t \<Rightarrow> t | Aware t \<Rightarrow> t)"

text \<open>
  Modelled from the spec: how the store reads a named field of a document, for the
  filters of \<^verbatim>\<open>FindMany\<close>. A name that is none of the eight is read as absent from
  the document.
\<close>

definition get_field :: "string \<Rightarrow> announcement_doc \<Rightarrow> bson option" where
  "get_field k d =
     (if k = ''_id'' then Some (BOid (doc_id d))
      else if k = ''title'' then Some (BStr (title d))
      else if k = ''message'' then Some (BStr (message d))
      else if k = ''start_date'' then
        Some (case start_date d of None \<Rightarrow> BNull | Some t \<Rightarrow> BDate t)
      else if k = ''expiration_date'' then Some (BDate (expiration_date d))
      else if k = ''created_by'' then Some (BStr (created_by d))
      else if k = ''created_at'' then Some (BDate (created_at d))
      else if k = ''is_active'' then Some (BBool (is_active d))
      else None)"

text \<open>
  Modelled from the spec: the partial fields of \<^verbatim>\<open>UpdateOne\<close>.
  \<^verbatim>\<open>{"$set": update_doc}\<close> writes each entry of \<^verbatim>\<open>update_doc\<close> into the document,
  whichever of the eight fields it names: the store itself protects none of them. An
  entry whose value is not of the named field's type, or that names no field, has no
  place in the record and is left out.
\<close>

definition set_field :: "string \<times> bson \<Rightarrow> announcement_doc \<Rightarrow> announcement_doc" where
  "set_field kv d =
     (case kv of
        (k, BStr s) \<Rightarrow>
          (if k = ''title'' then d\<lparr>title := s\<rparr>
           else if k = ''message'' then d\<lparr>message := s\<rparr>
           else if k = ''created_by'' then d\<lparr>created_by := s\<rparr> else d)
      | (k, BDate t) \<Rightarrow>
          (if k = ''start_date'' then d\<lparr>start_date := Some t\<rparr>
           else if k = ''expiration_date'' then d\<lparr>expiration_date := t\<rparr>
           else if k = ''created_at'' then d\<lparr>created_at := t\<rparr> else d)
      | (k, BBool b) \<Rightarrow> (if k = ''is_active'' then d\<lparr>is_active := b\<rparr> else d)
      | (k, BNull) \<Rightarrow> (if k = ''start_date'' then d\<lparr>start_date := None\<rparr> else d)
      | (k, BOid i) \<Rightarrow> (if k = ''_id'' then d\<lparr>doc_id := i\<rparr> else d))"

text \<open>Modelled from the spec: \<^verbatim>\<open>UpdateOne\<close> applying all the partial fields.\<close>

definition apply_set :: "(string \<times> bson) list \<Rightarrow> announcement_doc \<Rightarrow> announcement_doc" where
  "apply_set update_doc d = fold set_field update_doc d"

subsection \<open>The collaborators: identifiers, teacher directory, document store\<close>

text \<open>
  Modelled from the spec: \<^verbatim>\<open>bson.ObjectId\<close>, which is imported and not part of the
  sources. Identifiers are 24-hex-character strings, and a string that is not one is
  malformed. \<open>hex_val\<close> is the value of a hexadecimal character, in either case, and
  \<open>None\<close> for any other character.
\<close>

definition hex_val :: "char \<Rightarrow> nat option" where
  "hex_val c =
     (let n = (of_char c :: nat) in
      if 48 \<le> n \<and> n \<le> 57 then Some (n - 48)
      else if 97 \<le> n \<and> n \<le> 102 then Some (n - 87)
      else if 65 \<le> n \<and> n \<le> 70 then Some (n - 55)
      else None)"

text \<open>
  Modelled from the spec: the constructor \<^verbatim>\<open>ObjectId(s)\<close>, which yields the
  identifier for a string of 24 hexadecimal characters and raises for any other.
\<close>

definition ObjectId :: "string \<Rightarrow> objectid option" where
  "ObjectId s =
     (if length s = 24 \<and> list_all (\<lambda>c. hex_val c \<noteq> None) s
      then Some (map (\<lambda>c. the (hex_val c)) s) else None)"

text \<open>
  Modelled from the spec: \<^verbatim>\<open>str(oid)\<close>, the identifier surfaced as a string of 24
  lower-case hexadecimal characters.
\<close>

definition str_of_objectid :: "objectid \<Rightarrow> string" where
  "str_of_objectid i = map (\<lambda>n. ''0123456789abcdef'' ! n) i"

text \<open>
  Modelled from the spec: the teachers collection of \<^verbatim>\<open>..database\<close>, which is not part
  of the sources. The Teacher Directory answers whether a username exists;
  \<^verbatim>\<open>teachers_collection.find_one({"_id": u})\<close> is a (truthy) document when it does and
  \<^verbatim>\<open>None\<close> when it does not. The collection is the list of its usernames.
\<close>

definition find_teacher :: "string list \<Rightarrow> string \<Rightarrow> string option" where
  "find_teacher teachers_collection u = (if u \<in> set teachers_collection then Some u else None)"

text \<open>
  Modelled from the spec: the announcements collection of \<^verbatim>\<open>..database\<close>, which is not
  part of the sources. The Document Store offers \<^verbatim>\<open>FindMany(filter, sortKey,
  sortDescending)\<close>, \<^verbatim>\<open>InsertOne(record) -> id | failure\<close>, \<^verbatim>\<open>UpdateOne(id,
  partialFields) -> modifiedCount\<close> and \<^verbatim>\<open>DeleteOne(id) -> deletedCount\<close>. The
  collection is the list of its documents in insertion order.

  A filter is a dictionary of conditions, all of which must hold. The conditions are the
  ones the source writes: a field equal to a value (where \<^verbatim>\<open>None\<close> also matches a
  document without the field), a date field at least or at most a given date (a field
  that holds no date does not match), \<^verbatim>\<open>$and\<close> and \<^verbatim>\<open>$or\<close>.
\<close>

datatype cond = OpEq bson | OpGte timestamp | OpLte timestamp

datatype query = QField string cond | QAnd "query list" | QOr "query list"

text \<open>Modelled from the spec: when a field's value meets a condition of a filter.\<close>

definition holds :: "cond \<Rightarrow> bson option \<Rightarrow> bool" where
  "holds c v =
     (case c of
        OpEq x \<Rightarrow> (v = Some x \<or> (x = BNull \<and> v = None))
      | OpGte t \<Rightarrow> (case v of Some (BDate u) \<Rightarrow> t \<le> u | _ \<Rightarrow> False)
      | OpLte t \<Rightarrow> (case v of Some (BDate u) \<Rightarrow> u \<le> t | _ \<Rightarrow> False))"

text \<open>Modelled from the spec: when a document meets an entry of a filter.\<close>

fun matches :: "query \<Rightarrow> announcement_doc \<Rightarrow> bool" where
  "matches (QField k c) d = holds c (get_field k d)"
| "matches (QAnd qs) d = list_all (\<lambda>q. matches q d) qs"
| "matches (QOr qs) d = list_ex (\<lambda>q. matches q d) qs"

text \<open>
  Modelled from the spec: \<^verbatim>\<open>FindMany\<close>, that is \<^verbatim>\<open>collection.find(query)\<close>: the
  documents that meet every entry of the filter, in the collection's order.
\<close>

definition find_docs :: "query list \<Rightarrow> announcement_doc list \<Rightarrow> announcement_doc list" where
  "find_docs query coll = filter (\<lambda>d. list_all (\<lambda>q. matches q d) query) coll"

text \<open>
  Modelled from the spec: the sort key and direction of \<^verbatim>\<open>FindMany\<close>, that is
  \<^verbatim>\<open>cursor.sort(key, direction)\<close>: ascending by the key for a positive direction,
  descending for a negative one; documents with equal keys keep their order.
\<close>

definition sort_docs ::
  "(announcement_doc \<Rightarrow> timestamp) \<Rightarrow> int \<Rightarrow> announcement_doc list \<Rightarrow> announcement_doc list" where
  "sort_docs key direction docs =
     (if direction < 0 then sort_key (\<lambda>d. - key d) docs else sort_key key docs)"

text \<open>
  Modelled from the spec: the keyed lookup \<^verbatim>\<open>collection.find_one({"_id": oid})\<close>: the
  first document with the identifier, \<^verbatim>\<open>None\<close> when there is none.
\<close>

fun find_one :: "objectid \<Rightarrow> announcement_doc list \<Rightarrow> announcement_doc option" where
  "find_one i [] = None"
| "find_one i (d # ds) = (if doc_id d = i then Some d else find_one i ds)"

text \<open>
  Modelled from the spec: \<^verbatim>\<open>InsertOne(record) -> id | failure\<close>.
  \<^verbatim>\<open>insert_one\<close> stores the document under the identifier generated for it,
  \<open>new_id\<close>, and reports that identifier. Identifiers are unique in the store: an insert
  under an identifier that is already taken is not committed and reports none.
\<close>

definition insert_one ::
  "announcement_doc \<Rightarrow> objectid \<Rightarrow> announcement_doc list \<Rightarrow> announcement_doc list \<times> objectid option" where
  "insert_one d new_id coll =
     (if new_id \<in> set (map doc_id coll) then (coll, None)
      else (coll @ [d\<lparr>doc_id := new_id\<rparr>], Some new_id))"

text \<open>
  Modelled from the spec: \<^verbatim>\<open>UpdateOne(id, partialFields) -> modifiedCount\<close>.
  \<^verbatim>\<open>update_one\<close> writes the given fields into the first document with the identifier
  and reports how many documents it modified: one when a document matched and the write
  changed it, none when no document matched or the write changed nothing.
\<close>

fun update_one ::
  "objectid \<Rightarrow> (string \<times> bson) list \<Rightarrow> announcement_doc list \<Rightarrow> announcement_doc list \<times> nat" where
  "update_one i update_doc [] = ([], 0)"
| "update_one i update_doc (d # ds) =
     (if doc_id d = i
      then (apply_set update_doc d # ds, if apply_set update_doc d = d then 0 else 1)
      else (d # fst (update_one i update_doc ds), snd (update_one i update_doc ds)))"

text \<open>
  Modelled from the spec: \<^verbatim>\<open>DeleteOne(id) -> deletedCount\<close>.
  \<^verbatim>\<open>delete_one\<close> removes the first document with the identifier and reports how many
  documents it removed.
\<close>

fun delete_one :: "objectid \<Rightarrow> announcement_doc list \<Rightarrow> announcement_doc list \<times> nat" where
  "delete_one i [] = ([], 0)"
| "delete_one i (d # ds) =
     (if doc_id d = i then (ds, 1)
      else (d # fst (delete_one i ds), snd (delete_one i ds)))"

subsection \<open>Listing\<close>

text \<open>
  What \<^verbatim>\<open>get_announcements\<close> returns for a document: \<^verbatim>\<open>_id\<close> becomes the string
  \<^verbatim>\<open>id\<close>, and each of the three date fields that is present and not \<^verbatim>\<open>None\<close>
  becomes its ISO text; a \<^verbatim>\<open>start_date\<close> of \<^verbatim>\<open>None\<close> stays \<^verbatim>\<open>None\<close>.
\<close>

record announcement_json =
  json_id :: string
  json_title :: string
  json_message :: string
  json_start_date :: "isotext option"
  json_expiration_date :: isotext
  json_created_by :: string
  json_created_at :: isotext
  json_is_active :: bool

definition serialize :: "announcement_doc \<Rightarrow> announcement_json" where
  "serialize d =
     \<lparr>json_id = str_of_objectid (doc_id d),
      json_title = title d,
      json_message = message d,
      json_start_date = (case start_date d of None \<Rightarrow> None | Some t \<Rightarrow> Some (Isoformat t)),
      json_expiration_date = Isoformat (expiration_date d),
      json_created_by = created_by d,
      json_created_at = Isoformat (created_at d),
      json_is_active = is_active d\<rparr>"

text \<open>The query that the source builds when \<^verbatim>\<open>active_only\<close> is set.\<close>

definition active_query :: "timestamp \<Rightarrow> query list" where
  "active_query current_time =
     [QField ''is_active'' (OpEq (BBool True)),
      QAnd [QField ''expiration_date'' (OpGte current_time),
            QOr [QField ''start_date'' (OpLte current_time),
                 QField ''start_date'' (OpEq BNull)]]]"

text \<open>
  Python's truth value of an \<^verbatim>\<open>Optional[str]\<close>: \<^verbatim>\<open>None\<close> and the empty string are
  false, every other string is true.
\<close>

definition truthy :: "string option \<Rightarrow> bool" where
  "truthy u = (case u of None \<Rightarrow> False | Some s \<Rightarrow> s \<noteq> [])"

definition get_announcements ::
  "bool \<Rightarrow> string option \<Rightarrow> timestamp \<Rightarrow> string list \<Rightarrow> announcement_doc list
   \<Rightarrow> py_exception + announcement_json list" where
  "get_announcements active_only teacher_username now teachers_collection announcements_collection =
     (let query = (if active_only then active_query now else []) in
      if \<not> active_only \<and> truthy teacher_username
         \<and> (case teacher_username of None \<Rightarrow> False
              | Some u \<Rightarrow> find_teacher teachers_collection u = None)
      then Inl (HTTPException 401 ''Authentication required for management access'')
      else Inr (map serialize
                  (sort_docs created_at (- 1) (find_docs query announcements_collection))))"

subsection \<open>Creating\<close>

text \<open>
  \<open>now_checked\<close> is the clock reading that the expiration date is compared with,
  \<open>now_created\<close> the later reading that becomes \<^verbatim>\<open>created_at\<close>, and \<open>new_id\<close> the
  identifier generated for the inserted document. The document that the source builds
  has no \<^verbatim>\<open>_id\<close>; the record holds the empty identifier in its place until
  \<^verbatim>\<open>insert_one\<close> sets it, and holds the two dates as the store keeps them.

  Line 94 compares the expiration date with the clock, and line 99 a start date that is
  given with the expiration date; either comparison raises \<^verbatim>\<open>TypeError\<close> when one side
  is aware and the other naive.
\<close>

definition create_announcement ::
  "AnnouncementCreate \<Rightarrow> string \<Rightarrow> timestamp \<Rightarrow> timestamp \<Rightarrow> objectid \<Rightarrow> string list
   \<Rightarrow> announcement_doc list
   \<Rightarrow> (py_exception + (string \<times> string) list) \<times> announcement_doc list" where
  "create_announcement announcement teacher_username now_checked now_created new_id
       teachers_collection announcements_collection =
     (if find_teacher teachers_collection teacher_username = None
      then (Inl (HTTPException 401 ''Authentication required for this action''),
            announcements_collection)
      else case datetime_le (c_expiration_date announcement) (Naive now_checked) of
        None \<Rightarrow> (Inl TypeError, announcements_collection)
      | Some expired \<Rightarrow>
         if expired
         then (Inl (HTTPException 400 ''Expiration date must be in the future''),
               announcements_collection)
         else
         (case (case c_start_date announcement of None \<Rightarrow> Some False
                | Some s \<Rightarrow> datetime_le (c_expiration_date announcement) s) of
            None \<Rightarrow> (Inl TypeError, announcements_collection)
          | Some late \<Rightarrow>
             if late
             then (Inl (HTTPException 400 ''Start date must be before expiration date''),
                   announcements_collection)
             else
             (let announcement_doc =
                    \<lparr>doc_id = [],
                     title = c_title announcement,
                     message = c_message announcement,
                     start_date = map_option stored_datetime (c_start_date announcement),
                     expiration_date = stored_datetime (c_expiration_date announcement),
                     created_by = teacher_username,
                     created_at = now_created,
                     is_active = c_is_active announcement\<rparr>;
                  result = insert_one announcement_doc new_id announcements_collection
              in case snd result of
                   None \<Rightarrow>
                     (Inl (HTTPException 500 ''Failed to create announcement''), fst result)
                 | Some inserted_id \<Rightarrow>
                     (Inr [(''message'',
                            ''Announcement '' @ [CHR 0x27] @ c_title announcement @ [CHR 0x27]
                              @ '' created successfully''),
                           (''id'', str_of_objectid inserted_id)],
                      fst result))))"

subsection \<open>Updating\<close>

text \<open>
  The \<^verbatim>\<open>update_doc\<close> that the source builds (lines 148 to 158): one entry for each
  field the patch gives, a date as the store keeps it.
\<close>

definition update_doc_of :: "AnnouncementUpdate \<Rightarrow> (string \<times> bson) list" where
  "update_doc_of announcement =
     (case u_title announcement of None \<Rightarrow> [] | Some t \<Rightarrow> [(''title'', BStr t)])
     @ (case u_message announcement of None \<Rightarrow> [] | Some m \<Rightarrow> [(''message'', BStr m)])
     @ (case u_start_date announcement of None \<Rightarrow> []
        | Some s \<Rightarrow> [(''start_date'', BDate (stored_datetime s))])
     @ (case u_expiration_date announcement of None \<Rightarrow> []
        | Some e \<Rightarrow> [(''expiration_date'', BDate (stored_datetime e))])
     @ (case u_is_active announcement of None \<Rightarrow> [] | Some a \<Rightarrow> [(''is_active'', BBool a)])"

text \<open>
  Lines 161 and 162: the patch's date if it gives one, else the stored date, which the
  store hands back naive.
\<close>

definition final_expiration :: "AnnouncementUpdate \<Rightarrow> announcement_doc \<Rightarrow> datetime" where
  "final_expiration announcement existing =
     (case u_expiration_date announcement of Some e \<Rightarrow> e
      | None \<Rightarrow> Naive (expiration_date existing))"

definition final_start :: "AnnouncementUpdate \<Rightarrow> announcement_doc \<Rightarrow> datetime option" where
  "final_start announcement existing =
     (case u_start_date announcement of Some s \<Rightarrow> Some s
      | None \<Rightarrow> map_option Naive (start_date existing))"

definition update_announcement ::
  "string \<Rightarrow> AnnouncementUpdate \<Rightarrow> string \<Rightarrow> timestamp \<Rightarrow> string list \<Rightarrow> announcement_doc list
   \<Rightarrow> (py_exception + (string \<times> string) list) \<times> announcement_doc list" where
  "update_announcement announcement_id announcement teacher_username now
       teachers_collection announcements_collection =
     (if find_teacher teachers_collection teacher_username = None
      then (Inl (HTTPException 401 ''Authentication required for this action''),
            announcements_collection)
      else case ObjectId announcement_id of
        None \<Rightarrow> (Inl (HTTPException 400 ''Invalid announcement ID''), announcements_collection)
      | Some oid \<Rightarrow>
         (case find_one oid announcements_collection of
            None \<Rightarrow> (Inl (HTTPException 404 ''Announcement not found''), announcements_collection)
          | Some existing \<Rightarrow>
             (let update_doc = update_doc_of announcement in
              case datetime_le (final_expiration announcement existing) (Naive now) of
                None \<Rightarrow> (Inl TypeError, announcements_collection)
              | Some expired \<Rightarrow>
                 if expired
                 then (Inl (HTTPException 400 ''Expiration date must be in the future''),
                       announcements_collection)
                 else
                 (case (case final_start announcement existing of None \<Rightarrow> Some False
                        | Some s \<Rightarrow> datetime_le (final_expiration announcement existing) s) of
                    None \<Rightarrow> (Inl TypeError, announcements_collection)
                  | Some late \<Rightarrow>
                     if late
                     then (Inl (HTTPException 400
                                  ''Start date must be before expiration date''),
                           announcements_collection)
                     else
                     (if update_doc = []
                      then (Inl (HTTPException 400 ''No fields provided for update''),
                            announcements_collection)
                      else
                        (let result = update_one oid update_doc announcements_collection in
                         if snd result = 0
                         then (Inl (HTTPException 500 ''Failed to update announcement''),
                               fst result)
                         else (Inr [(''message'', ''Announcement updated successfully'')],
                               fst result)))))))"

subsection \<open>Deleting\<close>

definition delete_announcement ::
  "string \<Rightarrow> string \<Rightarrow> string list \<Rightarrow> announcement_doc list
   \<Rightarrow> (py_exception + (string \<times> string) list) \<times> announcement_doc list" where
  "delete_announcement announcement_id teacher_username teachers_collection
       announcements_collection =
     (if find_teacher teachers_collection teacher_username = None
      then (Inl (HTTPException 401 ''Authentication required for this action''),
            announcements_collection)
      else case ObjectId announcement_id of
        None \<Rightarrow> (Inl (HTTPException 400 ''Invalid announcement ID''), announcements_collection)
      | Some oid \<Rightarrow>
         (let result = delete_one oid announcements_collection in
          if snd result = 0
          then (Inl (HTTPException 404 ''Announcement not found''), fst result)
          else (Inr [(''message'', ''Announcement deleted successfully'')], fst result)))"

subsection \<open>The specification's predicate\<close>

text \<open>
  An announcement is currently active iff \<^verbatim>\<open>is_active\<close> is true, its expiration date is
  not before now, and its start date is absent or not after now.
\<close>

definition currently_active :: "timestamp \<Rightarrow> announcement_doc \<Rightarrow> bool" where
  "currently_active now d =
     (is_active d \<and> now \<le> expiration_date d
      \<and> (case start_date d of None \<Rightarrow> True | Some s \<Rightarrow> s \<le> now))"

subsection \<open>What an update is to leave behind\<close>

text \<open>
  The stored document after a patch, in the words of the specification: each field that
  the patch gives takes the patch's value, every other field keeps its value, and
  \<^verbatim>\<open>_id\<close>, \<^verbatim>\<open>created_by\<close> and \<^verbatim>\<open>created_at\<close> are never touched.
\<close>

definition patched :: "AnnouncementUpdate \<Rightarrow> announcement_doc \<Rightarrow> announcement_doc" where
  "patched p d =
     \<lparr>doc_id = doc_id d,
      title = (case u_title p of Some t \<Rightarrow> t | None \<Rightarrow> title d),
      message = (case u_message p of Some m \<Rightarrow> m | None \<Rightarrow> message d),
      start_date =
        (case u_start_date p of Some s \<Rightarrow> Some (stored_datetime s) | None \<Rightarrow> start_date d),
      expiration_date =
        (case u_expiration_date p of Some e \<Rightarrow> stored_datetime e
         | None \<Rightarrow> expiration_date d),
      created_by = created_by d,
      created_at = created_at d,
      is_active = (case u_is_active p of Some a \<Rightarrow> a | None \<Rightarrow> is_active d)\<rparr>"

subsection \<open>Concrete data for the examples\<close>

definition fair :: announcement_doc where
  "fair = \<lparr>doc_id = [0, 1, 2, 3, 4, 5, 6, 7, 8, 9, 10, 11, 12, 13, 14, 15, 0, 1, 2, 3, 4, 5, 6, 7],
           title = ''Fair'', message = ''Science fair'', start_date = Some 10,
           expiration_date = 50, created_by = ''alice'', created_at = 5, is_active = True\<rparr>"

section \<open>Properties\<close>

subsection \<open>Shared facts about the collaborators\<close>

lemma find_teacher_None: "(find_teacher ts u = None) = (u \<notin> set ts)"
  by (simp add: find_teacher_def)

lemma matches_active_query:
  "list_all (\<lambda>q. matches q d) (active_query now) = currently_active now d"
  by (simp add: active_query_def holds_def get_field_def currently_active_def
      split: option.splits)

lemma find_docs_active:
  "find_docs (active_query now) coll = filter (currently_active now) coll"
  by (simp add: find_docs_def matches_active_query)

lemma find_docs_all: "find_docs [] coll = coll"
  by (simp add: find_docs_def)

lemma sort_docs_desc_sorted:
  "sorted_wrt (\<lambda>a b. key b \<le> key a) (sort_docs key (- 1) docs)"
proof -
  have "sorted (map (\<lambda>d. - key d) (sort_key (\<lambda>d. - key d) docs))"
    by (rule sorted_sort_key)
  then show ?thesis
    by (simp add: sort_docs_def sorted_wrt_map)
qed

lemma sort_docs_mset: "mset (sort_docs key dir docs) = mset docs"
  by (simp add: sort_docs_def)

subsection \<open>Listing the active announcements\<close>

text \<open>
  Claim C1. For every collection and every clock reading, listing with
  \<^verbatim>\<open>active_only\<close> set returns the serialised form of exactly the stored announcements
  that are currently active (each as often as it is stored), newest first: the
  \<^verbatim>\<open>created_at\<close> values never increase along the result.
\<close>

theorem list_active_only_exact:
  "\<exists>docs. get_announcements True u now ts coll = Inr (map serialize docs)
     \<and> mset docs = mset (filter (currently_active now) coll)
     \<and> sorted_wrt (\<lambda>a b. created_at b \<le> created_at a) docs"
proof -
  let ?docs = "sort_docs created_at (- 1) (filter (currently_active now) coll)"
  have "get_announcements True u now ts coll = Inr (map serialize ?docs)"
    by (simp add: get_announcements_def find_docs_active)
  moreover have "mset ?docs = mset (filter (currently_active now) coll)"
    by (rule sort_docs_mset)
  moreover have "sorted_wrt (\<lambda>a b. created_at b \<le> created_at a) ?docs"
    by (rule sort_docs_desc_sorted)
  ultimately show ?thesis by blast
qed

text \<open>
  Claim C10. With \<^verbatim>\<open>active_only\<close> set, the listing never fails and is the same for any
  two requester usernames, absent or unknown ones included, whatever the teacher
  directory holds.
\<close>

theorem list_active_only_ignores_requester:
  "get_announcements True u1 now ts1 coll = get_announcements True u2 now ts2 coll
   \<and> (\<exists>r. get_announcements True u1 now ts1 coll = Inr r)"
  by (simp add: get_announcements_def)

subsection \<open>Authorization of the writing endpoints\<close>

text \<open>
  Claim C8. When the requester is not in the teacher directory, creating, updating and
  deleting all fail with the 401 exception (Unauthorized), whatever the other arguments
  are (no identifier or date is looked at), and the collection is returned as it was.
\<close>

theorem unauthorized_rejected:
  assumes "teacher_username \<notin> set ts"
  shows "create_announcement ann teacher_username n1 n2 nid ts coll
           = (Inl (HTTPException 401 ''Authentication required for this action''), coll)
       \<and> update_announcement aid patch teacher_username now ts coll
           = (Inl (HTTPException 401 ''Authentication required for this action''), coll)
       \<and> delete_announcement aid teacher_username ts coll
           = (Inl (HTTPException 401 ''Authentication required for this action''), coll)
       \<and> Unauthorized (HTTPException 401 ''Authentication required for this action'')"
  using assms
  by (simp add: create_announcement_def update_announcement_def delete_announcement_def
      find_teacher_None Unauthorized_def)

theorem unauthorized_rejected_witness:
  "''mallory'' \<notin> set [''alice'']
   \<and> create_announcement
         (AnnouncementCreate_init ''Fair'' ''Science fair'' None (Naive 50) None)
         ''mallory'' 10 11 [] [''alice''] []
       = (Inl (HTTPException 401 ''Authentication required for this action''), [])
   \<and> update_announcement ''not an id''
         \<lparr>u_title = None, u_message = None, u_start_date = None,
          u_expiration_date = Some (Naive 1), u_is_active = None\<rparr> ''mallory'' 10 [''alice''] []
       = (Inl (HTTPException 401 ''Authentication required for this action''), [])
   \<and> delete_announcement ''not an id'' ''mallory'' [''alice''] []
       = (Inl (HTTPException 401 ''Authentication required for this action''), [])"
proof -
  have h: "''mallory'' \<notin> set [''alice'']" by simp
  show ?thesis
    using h unauthorized_rejected [OF h] by simp
qed

subsection \<open>Facts about the concrete data\<close>

lemma ObjectId_fair:
  "ObjectId ''0123456789abcdef01234567''
     = Some [0, 1, 2, 3, 4, 5, 6, 7, 8, 9, 10, 11, 12, 13, 14, 15, 0, 1, 2, 3, 4, 5, 6, 7]"
  by (simp add: ObjectId_def hex_val_def)

lemma ObjectId_zero:
  "ObjectId ''000000000000000000000000''
     = Some [0, 0, 0, 0, 0, 0, 0, 0, 0, 0, 0, 0, 0, 0, 0, 0, 0, 0, 0, 0, 0, 0, 0, 0]"
  by (simp add: ObjectId_def hex_val_def)

lemma ObjectId_short: "ObjectId ''xyz'' = None"
  by (simp add: ObjectId_def)

lemma find_one_fair: "find_one (doc_id fair) [fair] = Some fair"
  by simp

subsection \<open>Deleting with a bad identifier\<close>

lemma delete_one_absent: "i \<notin> doc_id ` set coll \<Longrightarrow> delete_one i coll = (coll, 0)"
  by (induction coll) auto

text \<open>
  Claim C9. For a requester in the teacher directory: an identifier that
  \<^verbatim>\<open>ObjectId\<close> rejects makes deleting fail with the 400 exception (InvalidInput), and
  a well-formed identifier that no stored announcement carries makes it fail with the
  404 exception (NotFound); in both cases the collection is returned as it was.
\<close>

theorem delete_bad_id:
  assumes "teacher_username \<in> set ts"
  shows "(ObjectId aid = None \<longrightarrow>
            delete_announcement aid teacher_username ts coll
              = (Inl (HTTPException 400 ''Invalid announcement ID''), coll))
       \<and> (\<forall>i. ObjectId aid = Some i \<and> i \<notin> doc_id ` set coll \<longrightarrow>
            delete_announcement aid teacher_username ts coll
              = (Inl (HTTPException 404 ''Announcement not found''), coll))
       \<and> InvalidInput (HTTPException 400 ''Invalid announcement ID'')
       \<and> NotFound (HTTPException 404 ''Announcement not found'')"
  using assms
  by (simp add: delete_announcement_def find_teacher_None delete_one_absent
      InvalidInput_def NotFound_def)

theorem delete_bad_id_witness:
  "''alice'' \<in> set [''alice'']
   \<and> ObjectId ''xyz'' = None
   \<and> delete_announcement ''xyz'' ''alice'' [''alice''] [fair]
       = (Inl (HTTPException 400 ''Invalid announcement ID''), [fair])
   \<and> ObjectId ''000000000000000000000000''
       = Some [0, 0, 0, 0, 0, 0, 0, 0, 0, 0, 0, 0, 0, 0, 0, 0, 0, 0, 0, 0, 0, 0, 0, 0]
   \<and> [0, 0, 0, 0, 0, 0, 0, 0, 0, 0, 0, 0, 0, 0, 0, 0, 0, 0, 0, 0, 0, 0, 0, 0]
       \<notin> doc_id ` set [fair]
   \<and> delete_announcement ''000000000000000000000000'' ''alice'' [''alice''] [fair]
       = (Inl (HTTPException 404 ''Announcement not found''), [fair])"
proof -
  have h: "''alice'' \<in> set [''alice'']" by simp
  have a: "[0, 0, 0, 0, 0, 0, 0, 0, 0, 0, 0, 0, 0, 0, 0, 0, 0, 0, 0, 0, 0, 0, 0, 0]
             \<notin> doc_id ` set [fair]"
    by (simp add: fair_def)
  show ?thesis
    using h a ObjectId_short ObjectId_zero
      delete_bad_id [OF h, of "''xyz''" "[fair]"]
      delete_bad_id [OF h, of "''000000000000000000000000''" "[fair]"]
    by simp
qed

subsection \<open>Listing for management\<close>

text \<open>
  Claim C3, as stated, fails: a requester username that is present but empty resolves
  to no teacher, and yet the listing with \<^verbatim>\<open>active_only\<close> unset succeeds. The source
  tests the truth value of the username, which is false for the empty string as it is
  for \<^verbatim>\<open>None\<close>.
\<close>

theorem list_management_counterexample:
  "find_teacher [''alice''] '''' = None
   \<and> get_announcements False (Some '''') 60 [''alice''] [fair] = Inr [serialize fair]"
  by (simp add: get_announcements_def truthy_def find_teacher_def find_docs_def sort_docs_def)

text \<open>
  Claim C3, amended. With \<^verbatim>\<open>active_only\<close> unset and a non-empty requester username,
  the listing succeeds when the username is in the teacher directory and fails with the
  401 exception (Unauthorized) when it is not; with the username absent it returns all
  announcements, newest first, and no lookup in the teacher directory decides anything.
\<close>

theorem list_management_authorization:
  "(u \<noteq> [] \<longrightarrow>
      get_announcements False (Some u) now ts coll
        = (if u \<in> set ts then Inr (map serialize (sort_docs created_at (- 1) coll))
           else Inl (HTTPException 401 ''Authentication required for management access'')))
   \<and> get_announcements False None now ts coll
        = Inr (map serialize (sort_docs created_at (- 1) coll))
   \<and> Unauthorized (HTTPException 401 ''Authentication required for management access'')"
  by (simp add: get_announcements_def truthy_def find_teacher_None find_docs_all
      Unauthorized_def)

theorem list_management_authorization_witness:
  "''mallory'' \<noteq> []
   \<and> get_announcements False (Some ''mallory'') 60 [''alice''] [fair]
       = Inl (HTTPException 401 ''Authentication required for management access'')
   \<and> get_announcements False None 60 [''alice''] [fair] = Inr [serialize fair]"
  using list_management_authorization [of "''mallory''" 60 "[''alice'']" "[fair]"]
  by (simp add: sort_docs_def)

subsection \<open>Creating\<close>

text \<open>
  For a requester in the teacher directory and naive dates, creating fails with a 400
  exception (InvalidInput) exactly when the expiration date is not after the clock
  reading it is checked against, or a start date is given and is not before the
  expiration date. Otherwise the document handed to the store carries the requester as
  \<^verbatim>\<open>created_by\<close>, the clock reading taken for it as \<^verbatim>\<open>created_at\<close>, and the body's
  \<^verbatim>\<open>is_active\<close>, which is true when the body leaves it out; with the identifier the
  store generates for it being a new one, that document is appended to the collection
  and its identifier returned.
\<close>

lemma create_naive_dates:
  assumes "teacher_username \<in> set ts"
  shows "((\<exists>x. fst (create_announcement
                    (AnnouncementCreate_init t m (map_option Naive s) (Naive e) a)
                    teacher_username now_checked now_created new_id ts coll) = Inl x
               \<and> InvalidInput x)
          = (e \<le> now_checked \<or> (\<exists>s'. s = Some s' \<and> e \<le> s')))
       \<and> (now_checked < e \<and> (s = None \<or> (\<exists>s'. s = Some s' \<and> s' < e))
            \<and> new_id \<notin> doc_id ` set coll \<longrightarrow>
          create_announcement (AnnouncementCreate_init t m (map_option Naive s) (Naive e) a)
              teacher_username now_checked now_created new_id ts coll
            = (Inr [(''message'', ''Announcement '' @ [CHR 0x27] @ t @ [CHR 0x27]
                                   @ '' created successfully''),
                    (''id'', str_of_objectid new_id)],
               coll @ [\<lparr>doc_id = new_id, title = t, message = m, start_date = s,
                        expiration_date = e, created_by = teacher_username,
                        created_at = now_created,
                        is_active = (case a of None \<Rightarrow> True | Some b \<Rightarrow> b)\<rparr>]))"
  using assms
  by (auto simp add: create_announcement_def find_teacher_None AnnouncementCreate_init_def
      insert_one_def InvalidInput_def datetime_le_def stored_datetime_def Let_def
      split: option.splits)

text \<open>
  Claim C4. The claim speaks of every request of an existing teacher, and the
  specification's own examples write dates with a time zone
  (\<^verbatim>\<open>2023-12-31T23:59:59Z\<close>). For such a date the source does not do what the claim
  says: line 94 compares the aware expiration date with the naive clock, the comparison
  raises \<^verbatim>\<open>TypeError\<close>, and the request ends in that exception. It is not an
  InvalidInput failure when the date is in the past (instant 3 against the clock at 4),
  and nothing is persisted when the date is in the future (instant 50).
\<close>

theorem create_aware_expiration_raises:
  "create_announcement (AnnouncementCreate_init ''Fair'' ''Science fair'' None (Aware 3) None)
      ''alice'' 4 5 (doc_id fair) [''alice''] [] = (Inl TypeError, [])
   \<and> create_announcement (AnnouncementCreate_init ''Fair'' ''Science fair'' None (Aware 50) None)
      ''alice'' 4 5 (doc_id fair) [''alice''] [] = (Inl TypeError, [])
   \<and> \<not> InvalidInput TypeError"
  by (simp add: create_announcement_def AnnouncementCreate_init_def find_teacher_def
      datetime_le_def InvalidInput_def)

subsection \<open>Updating: the date rules\<close>

text \<open>
  For a requester in the teacher directory, an identifier of a stored announcement and
  a patch whose dates, where it gives any, are naive: updating fails with one of the
  two date exceptions, both 400 (InvalidInput), exactly when the effective expiration
  date is not after now, or the effective start date is present and not before the
  effective expiration date; the collection is then unchanged. The effective dates are
  spelled out: the patch's date where the patch gives one, the stored date where it
  does not.
\<close>

lemma update_naive_dates:
  assumes "teacher_username \<in> set ts" and "ObjectId aid = Some i"
    and "find_one i coll = Some d"
    and "u_expiration_date p = map_option Naive pe"
    and "u_start_date p = map_option Naive ps"
  shows "(((case pe of Some e \<Rightarrow> e | None \<Rightarrow> expiration_date d) \<le> now
            \<or> (\<exists>s. (case ps of Some s' \<Rightarrow> Some s' | None \<Rightarrow> start_date d) = Some s
                  \<and> (case pe of Some e \<Rightarrow> e | None \<Rightarrow> expiration_date d) \<le> s))
          = (update_announcement aid p teacher_username now ts coll
               = (Inl (HTTPException 400 ''Expiration date must be in the future''), coll)
             \<or> update_announcement aid p teacher_username now ts coll
               = (Inl (HTTPException 400 ''Start date must be before expiration date''),
                  coll)))
       \<and> InvalidInput (HTTPException 400 ''Expiration date must be in the future'')
       \<and> InvalidInput (HTTPException 400 ''Start date must be before expiration date'')"
  using assms
  by (auto simp add: update_announcement_def find_teacher_None final_expiration_def
      final_start_def InvalidInput_def datetime_le_def Let_def split: option.splits)

text \<open>
  Claim C2. The specification's example: stored start date 10 and expiration date 50,
  the clock at 20, and a patch that sets only the expiration date, to the instant 7,
  which is in the past and before the stored start. Written with a time zone the patch's
  date is aware, and the source does not fail with InvalidInput as the claim says: line
  164 compares it with the naive clock and raises \<^verbatim>\<open>TypeError\<close>. An aware start date
  does the same at line 168, where it meets the stored, naive expiration date.
\<close>

theorem update_aware_date_raises:
  "update_announcement ''0123456789abcdef01234567''
      \<lparr>u_title = None, u_message = None, u_start_date = None,
       u_expiration_date = Some (Aware 7), u_is_active = None\<rparr> ''alice'' 20 [''alice''] [fair]
     = (Inl TypeError, [fair])
   \<and> update_announcement ''0123456789abcdef01234567''
      \<lparr>u_title = None, u_message = None, u_start_date = Some (Aware 60),
       u_expiration_date = None, u_is_active = None\<rparr> ''alice'' 20 [''alice''] [fair]
     = (Inl TypeError, [fair])
   \<and> \<not> InvalidInput TypeError"
  by (simp add: update_announcement_def ObjectId_fair find_teacher_def fair_def
      final_expiration_def final_start_def datetime_le_def InvalidInput_def)

subsection \<open>Updating: the empty patch\<close>

text \<open>
  Claim C5, as stated, fails: the source checks the dates before it checks that the
  patch is empty, and with an empty patch the effective dates are the stored ones. For
  a stored announcement that has expired, the empty patch is answered with the
  expiration-date exception, not with the one for an empty patch.
\<close>

theorem update_empty_patch_counterexample:
  "update_announcement ''0123456789abcdef01234567''
      \<lparr>u_title = None, u_message = None, u_start_date = None,
       u_expiration_date = None, u_is_active = None\<rparr> ''alice'' 60 [''alice''] [fair]
     = (Inl (HTTPException 400 ''Expiration date must be in the future''), [fair])
   \<and> HTTPException 400 ''Expiration date must be in the future''
       \<noteq> HTTPException 400 ''No fields provided for update''"
  by (simp add: update_announcement_def ObjectId_fair find_teacher_def fair_def
      final_expiration_def datetime_le_def)

text \<open>
  Claim C5, amended. For a requester in the teacher directory and an identifier of a
  stored announcement, a patch without any field fails with a 400 exception
  (InvalidInput) and the collection is unchanged; the exception is the one for an empty
  patch whenever the stored dates pass the date rules, that is, the stored expiration
  date is after now and the stored start date is absent or before it.
\<close>

theorem update_empty_patch:
  assumes "teacher_username \<in> set ts" and "ObjectId aid = Some i"
    and "find_one i coll = Some d"
  shows "(\<exists>x. update_announcement aid
                 \<lparr>u_title = None, u_message = None, u_start_date = None,
                  u_expiration_date = None, u_is_active = None\<rparr>
                 teacher_username now ts coll = (Inl x, coll)
              \<and> InvalidInput x)
       \<and> (now < expiration_date d
            \<and> (start_date d = None \<or> (\<exists>s. start_date d = Some s \<and> s < expiration_date d))
          \<longrightarrow> update_announcement aid
                 \<lparr>u_title = None, u_message = None, u_start_date = None,
                  u_expiration_date = None, u_is_active = None\<rparr>
                 teacher_username now ts coll
                = (Inl (HTTPException 400 ''No fields provided for update''), coll))"
  using assms
  by (auto simp add: update_announcement_def find_teacher_None update_doc_of_def
      final_expiration_def final_start_def InvalidInput_def datetime_le_def
      split: option.splits)

theorem update_empty_patch_witness:
  "''alice'' \<in> set [''alice'']
   \<and> ObjectId ''0123456789abcdef01234567'' = Some (doc_id fair)
   \<and> find_one (doc_id fair) [fair] = Some fair
   \<and> 20 < expiration_date fair
   \<and> start_date fair = Some 10 \<and> 10 < expiration_date fair
   \<and> update_announcement ''0123456789abcdef01234567''
        \<lparr>u_title = None, u_message = None, u_start_date = None,
         u_expiration_date = None, u_is_active = None\<rparr> ''alice'' 20 [''alice''] [fair]
       = (Inl (HTTPException 400 ''No fields provided for update''), [fair])"
proof -
  have h: "''alice'' \<in> set [''alice'']" by simp
  have o: "ObjectId ''0123456789abcdef01234567'' = Some (doc_id fair)"
    by (simp add: ObjectId_fair fair_def)
  have s: "start_date fair = Some 10 \<and> expiration_date fair = 50" by (simp add: fair_def)
  show ?thesis
    using h o s find_one_fair update_empty_patch [OF h o find_one_fair, where now = 20]
    by simp
qed

subsection \<open>Updating: a write that modifies nothing\<close>

text \<open>
  Claim C6. When the requester is in the teacher directory, the identifier is that of
  a stored announcement, the effective dates pass the date rules (which only naive
  dates do) and the patch is not empty, and the store reports that it modified no
  document, updating fails with the 500 exception (StorageError).
\<close>

theorem update_zero_modified:
  assumes "teacher_username \<in> set ts" and "ObjectId aid = Some i"
    and "find_one i coll = Some d"
    and "final_expiration p d = Naive e" and "now < e"
    and "final_start p d = None \<or> (\<exists>s. final_start p d = Some (Naive s) \<and> s < e)"
    and "update_doc_of p \<noteq> []"
    and "snd (update_one i (update_doc_of p) coll) = 0"
  shows "fst (update_announcement aid p teacher_username now ts coll)
           = Inl (HTTPException 500 ''Failed to update announcement'')
         \<and> StorageError (HTTPException 500 ''Failed to update announcement'')"
  using assms
  by (auto simp add: update_announcement_def find_teacher_None Let_def StorageError_def
      datetime_le_def split: option.splits)

theorem update_zero_modified_witness:
  "''alice'' \<in> set [''alice'']
   \<and> ObjectId ''0123456789abcdef01234567'' = Some (doc_id fair)
   \<and> find_one (doc_id fair) [fair] = Some fair
   \<and> update_doc_of \<lparr>u_title = Some ''Fair'', u_message = None, u_start_date = None,
                     u_expiration_date = None, u_is_active = None\<rparr> = [(''title'', BStr ''Fair'')]
   \<and> snd (update_one (doc_id fair) [(''title'', BStr ''Fair'')] [fair]) = 0
   \<and> fst (update_announcement ''0123456789abcdef01234567''
             \<lparr>u_title = Some ''Fair'', u_message = None, u_start_date = None,
              u_expiration_date = None, u_is_active = None\<rparr> ''alice'' 20 [''alice''] [fair])
       = Inl (HTTPException 500 ''Failed to update announcement'')"
proof -
  let ?p = "\<lparr>u_title = Some ''Fair'', u_message = None, u_start_date = None,
             u_expiration_date = None, u_is_active = None\<rparr>"
  have h: "''alice'' \<in> set [''alice'']" by simp
  have o: "ObjectId ''0123456789abcdef01234567'' = Some (doc_id fair)"
    by (simp add: ObjectId_fair fair_def)
  have u: "update_doc_of ?p = [(''title'', BStr ''Fair'')]"
    by (simp add: update_doc_of_def)
  have e: "final_expiration ?p fair = Naive 50"
    by (simp add: final_expiration_def fair_def)
  have l: "(20::int) < 50" by simp
  have s: "final_start ?p fair = None
           \<or> (\<exists>s. final_start ?p fair = Some (Naive s) \<and> s < 50)"
    by (simp add: final_start_def fair_def)
  have n: "update_doc_of ?p \<noteq> []" by (simp add: u)
  have z: "snd (update_one (doc_id fair) (update_doc_of ?p) [fair]) = 0"
    by (simp add: u apply_set_def set_field_def fair_def)
  show ?thesis
    using h o u z find_one_fair update_zero_modified [OF h o find_one_fair e l s n z]
    by simp
qed

subsection \<open>Updating: what is written\<close>

lemma update_doc_of_keys:
  "fst ` set (update_doc_of p)
     = (if u_title p = None then {} else {''title''})
       \<union> (if u_message p = None then {} else {''message''})
       \<union> (if u_start_date p = None then {} else {''start_date''})
       \<union> (if u_expiration_date p = None then {} else {''expiration_date''})
       \<union> (if u_is_active p = None then {} else {''is_active''})"
  by (auto simp add: update_doc_of_def split: option.splits)

lemma apply_set_update_doc_of: "apply_set (update_doc_of p) d = patched p d"
  by (simp add: apply_set_def update_doc_of_def set_field_def patched_def
      split: option.splits)

lemma patched_frame:
  "doc_id (patched p d) = doc_id d \<and> created_by (patched p d) = created_by d
   \<and> created_at (patched p d) = created_at d"
  by (simp add: patched_def)

lemma update_one_frame:
  "map doc_id (fst (update_one i (update_doc_of p) coll)) = map doc_id coll
   \<and> map created_by (fst (update_one i (update_doc_of p) coll)) = map created_by coll
   \<and> map created_at (fst (update_one i (update_doc_of p) coll)) = map created_at coll"
  by (induction coll) (simp_all add: apply_set_update_doc_of patched_frame)

lemma update_one_length: "length (fst (update_one i upd coll)) = length coll"
  by (induction coll) simp_all

lemma update_one_nth:
  "find_one i coll = Some d \<Longrightarrow> k < length coll \<Longrightarrow>
   fst (update_one i upd coll) ! k = coll ! k
   \<or> (coll ! k = d \<and> fst (update_one i upd coll) ! k = apply_set upd d)"
proof (induction coll arbitrary: k)
  case Nil
  then show ?case by simp
next
  case (Cons x xs)
  then show ?case
    by (cases k) (auto split: if_splits)
qed

lemma update_one_find_one:
  "find_one i coll = Some d \<Longrightarrow>
   find_one i (fst (update_one i (update_doc_of p) coll)) = Some (patched p d)"
  by (induction coll) (auto simp add: apply_set_update_doc_of patched_frame)

lemma update_announcement_snd:
  "snd (update_announcement aid p u now ts coll) = coll
   \<or> (\<exists>i. snd (update_announcement aid p u now ts coll)
            = fst (update_one i (update_doc_of p) coll))"
  by (auto simp add: update_announcement_def Let_def split: option.splits)

text \<open>
  Claim C7. The update document that the source builds names exactly the fields that
  the patch gives, so none of \<^verbatim>\<open>_id\<close>, \<^verbatim>\<open>created_by\<close> and \<^verbatim>\<open>created_at\<close>, which
  the store would overwrite as readily as any other field. No update, successful or not,
  changes the \<^verbatim>\<open>_id\<close>, \<^verbatim>\<open>created_by\<close> or \<^verbatim>\<open>created_at\<close> of any stored document.
  After a successful update the announcement under the identifier is the stored one
  with exactly the patch's fields overwritten (\<open>patched\<close>), the collection has the same
  length, and every position holds what it held before or, where it held that
  announcement, the patched one.
\<close>

theorem update_writes_only_patch_fields:
  "fst ` set (update_doc_of p)
     = (if u_title p = None then {} else {''title''})
       \<union> (if u_message p = None then {} else {''message''})
       \<union> (if u_start_date p = None then {} else {''start_date''})
       \<union> (if u_expiration_date p = None then {} else {''expiration_date''})
       \<union> (if u_is_active p = None then {} else {''is_active''})
   \<and> map doc_id (snd (update_announcement aid p u now ts coll)) = map doc_id coll
   \<and> map created_by (snd (update_announcement aid p u now ts coll)) = map created_by coll
   \<and> map created_at (snd (update_announcement aid p u now ts coll)) = map created_at coll
   \<and> (\<forall>r coll'. update_announcement aid p u now ts coll = (Inr r, coll') \<longrightarrow>
        (\<exists>i d. ObjectId aid = Some i \<and> find_one i coll = Some d
           \<and> find_one i coll' = Some (patched p d)
           \<and> length coll' = length coll
           \<and> (\<forall>k<length coll. coll' ! k = coll ! k
                 \<or> (coll ! k = d \<and> coll' ! k = patched p d))))"
proof -
  have frame: "map doc_id (snd (update_announcement aid p u now ts coll)) = map doc_id coll
   \<and> map created_by (snd (update_announcement aid p u now ts coll)) = map created_by coll
   \<and> map created_at (snd (update_announcement aid p u now ts coll)) = map created_at coll"
    using update_announcement_snd [of aid p u now ts coll] update_one_frame [of _ p coll]
    by auto
  have succ: "\<exists>i d. ObjectId aid = Some i \<and> find_one i coll = Some d
           \<and> find_one i coll' = Some (patched p d)
           \<and> length coll' = length coll
           \<and> (\<forall>k<length coll. coll' ! k = coll ! k
                 \<or> (coll ! k = d \<and> coll' ! k = patched p d))"
    if ok: "update_announcement aid p u now ts coll = (Inr r, coll')" for r coll'
  proof -
    from ok obtain i d where i: "ObjectId aid = Some i" and d: "find_one i coll = Some d"
      and c: "coll' = fst (update_one i (update_doc_of p) coll)"
      by (auto simp add: update_announcement_def Let_def
          split: option.splits if_splits)
    have "find_one i coll' = Some (patched p d)"
      using update_one_find_one [OF d, of p] c by simp
    moreover have "length coll' = length coll"
      using c by (simp add: update_one_length)
    moreover have "\<forall>k<length coll. coll' ! k = coll ! k
                 \<or> (coll ! k = d \<and> coll' ! k = patched p d)"
      using update_one_nth [OF d, of _ "update_doc_of p"] c
      by (simp add: apply_set_update_doc_of)
    ultimately show ?thesis using i d by blast
  qed
  from update_doc_of_keys [of p] frame succ show ?thesis by blast
qed

theorem update_writes_only_patch_fields_witness:
  "update_announcement ''0123456789abcdef01234567''
      \<lparr>u_title = Some ''Gala'', u_message = None, u_start_date = None,
       u_expiration_date = Some (Naive 70), u_is_active = None\<rparr>
      ''alice'' 20 [''alice''] [fair]
     = (Inr [(''message'', ''Announcement updated successfully'')],
        [fair\<lparr>title := ''Gala'', expiration_date := 70\<rparr>])
   \<and> (\<exists>i d. ObjectId ''0123456789abcdef01234567'' = Some i \<and> find_one i [fair] = Some d
         \<and> find_one i [fair\<lparr>title := ''Gala'', expiration_date := 70\<rparr>]
             = Some (patched \<lparr>u_title = Some ''Gala'', u_message = None, u_start_date = None,
                              u_expiration_date = Some (Naive 70), u_is_active = None\<rparr> d))"
proof -
  let ?p = "\<lparr>u_title = Some ''Gala'', u_message = None, u_start_date = None,
             u_expiration_date = Some (Naive 70), u_is_active = None\<rparr>"
  have ok: "update_announcement ''0123456789abcdef01234567'' ?p ''alice'' 20 [''alice''] [fair]
     = (Inr [(''message'', ''Announcement updated successfully'')],
        [fair\<lparr>title := ''Gala'', expiration_date := 70\<rparr>])"
    by (simp add: update_announcement_def ObjectId_fair find_teacher_def fair_def
        final_expiration_def final_start_def update_doc_of_def apply_set_def set_field_def
        datetime_le_def stored_datetime_def)
  show ?thesis
    using ok update_writes_only_patch_fields
      [of ?p "''0123456789abcdef01234567''" "''alice''" 20 "[''alice'']" "[fair]"]
    by blast
qed

end
